theory Spec2Isabelle
  imports Main "HOL-Library.Sublist"
begin

section \<open>Values exchanged with the backend\<close>

text \<open>
  The client of \<^verbatim>\<open>clever/clever.py\<close> sends JSON and receives JSON. A decoded body is a
  Python value built from \<^verbatim>\<open>None\<close>, booleans, numbers, strings, lists and dicts; a dict
  is kept as an association list that is read with \<open>map_of\<close> (the first binding of a key
  is the one that counts).
\<close>

datatype json =
    JNull
  | JBool bool
  | JNum int
  | JStr string
  | JArr "json list"
  | JObj "(string \<times> json) list"

text \<open>
  The exceptions that can leave the client. \<open>TimeoutError\<close> is the \<^verbatim>\<open>asyncio.TimeoutError\<close>
  that the timeout context raises inside the guarded block when \<^verbatim>\<open>request_timeout\<close>
  expires. \<open>ServerTimeoutError\<close> stands for the timeouts of the HTTP library itself (a
  read or connect timeout of the session, its total timeout), identified by their text:
  their classes derive from \<^verbatim>\<open>asyncio.TimeoutError\<close>. \<open>CleverError\<close> and
  \<open>CleverConnectionError\<close> are the two kinds of \<^verbatim>\<open>clever/exceptions.py\<close>; \<open>ValueError\<close>,
  \<open>KeyError\<close> and \<open>TypeError\<close> are Python's own; \<open>ValidationError\<close> is raised by the data
  models; \<open>OtherError\<close> stands for any other exception of the HTTP library (a bad
  status, a body that is not JSON, a reset connection), identified by its text.
\<close>

datatype exn =
    TimeoutError
  | ServerTimeoutError string
  | CleverConnectionError string
  | CleverError json
  | KeyError string
  | TypeError
  | ValueError
  | ValidationError
  | OtherError string

text \<open>\<^verbatim>\<open>isinstance(e, asyncio.TimeoutError)\<close>, the test of an \<^verbatim>\<open>except asyncio.TimeoutError\<close>
  clause: it holds for the class itself and for the classes derived from it.\<close>

fun is_asyncio_TimeoutError :: "exn \<Rightarrow> bool" where
  "is_asyncio_TimeoutError TimeoutError = True"
| "is_asyncio_TimeoutError (ServerTimeoutError _) = True"
| "is_asyncio_TimeoutError _ = False"

text \<open>\<^verbatim>\<open>value[key]\<close> for a string key: only a dict can be read that way.\<close>

fun getitem :: "json \<Rightarrow> string \<Rightarrow> exn + json" where
  "getitem (JObj kvs) k = (case map_of kvs k of None \<Rightarrow> Inl (KeyError k) | Some v \<Rightarrow> Inr v)"
| "getitem _ k = Inl TypeError"

text \<open>\<^verbatim>\<open>value[key] = v\<close> for a string key: the dict is updated in place, anything else
  raises \<^verbatim>\<open>TypeError\<close>.\<close>

fun upd :: "string \<Rightarrow> json \<Rightarrow> (string \<times> json) list \<Rightarrow> (string \<times> json) list" where
  "upd k v [] = [(k, v)]"
| "upd k v (p # ps) = (if fst p = k then (k, v) # ps else p # upd k v ps)"

fun setitem :: "json \<Rightarrow> string \<Rightarrow> json \<Rightarrow> exn + json" where
  "setitem (JObj kvs) k v = Inr (JObj (upd k v kvs))"
| "setitem _ k v = Inl TypeError"

text \<open>\<^verbatim>\<open>str(x)\<close> for a value that is a string or \<^verbatim>\<open>None\<close>.\<close>

fun py_str :: "string option \<Rightarrow> string" where
  "py_str None = ''None''"
| "py_str (Some s) = s"

subsection \<open>The data models\<close>

datatype model_class =
    SendEmail
  | VerifyLink
  | ObtainUserSecret
  | ObtainApiToken
  | UserInfo
  | Transactions
  | EvseInfo
  | Energitillaeg

record model =
  cls :: model_class
  entries :: "(string \<times> json) list"

text \<open>
  Modelled from the spec: \<^verbatim>\<open>clever/models.py\<close> is not among the sources. Section 3 of the
  specification describes every result as a direct deserialization of the JSON payload
  into a typed structure, whose fields equal the fields of the input JSON. So
  \<open>parse_obj\<close> accepts every dict and keeps its entries, it rejects what is not a dict,
  and an attribute of the model is the entry of that name, \<^verbatim>\<open>None\<close> when the payload has
  none. Which payloads the real models refuse is not modelled.
\<close>

fun parse_obj :: "model_class \<Rightarrow> json \<Rightarrow> exn + model" where
  "parse_obj c (JObj kvs) = Inr \<lparr>cls = c, entries = kvs\<rparr>"
| "parse_obj c _ = Inl ValidationError"

definition attr :: "model \<Rightarrow> string \<Rightarrow> json" where
  "attr m name = (case map_of (entries m) name of None \<Rightarrow> JNull | Some v \<Rightarrow> v)"

section \<open>Sessions, requests and the names imported from outside\<close>

text \<open>
  A \<^verbatim>\<open>ClientSession\<close> of the HTTP library is a shared mutable object: the caller who
  supplies one keeps a reference to it. The sessions therefore live in a store, a list
  indexed by the session's address, and a client holds an address. The library's
  \<^verbatim>\<open>close()\<close> releases the connector of a session that is still open and does nothing
  on one that is closed already; \<open>close_calls\<close> counts the calls, \<open>releases\<close> the times the
  connector was released.
\<close>

record client_session =
  is_closed :: bool
  close_calls :: nat
  releases :: nat

definition ClientSession :: client_session where
  "ClientSession = \<lparr>is_closed = False, close_calls = 0, releases = 0\<rparr>"

definition session_close :: "client_session \<Rightarrow> client_session" where
  "session_close s =
     \<lparr>is_closed = True,
      close_calls = close_calls s + 1,
      releases = (if is_closed s then releases s else releases s + 1)\<rparr>"

text \<open>One call of \<^verbatim>\<open>session.request(method, url, json=data, headers=headers)\<close>.\<close>

record http_request =
  via :: nat
  meth :: string
  url :: string
  body :: "json option"
  headers :: "(string \<times> string) list"

text \<open>The world outside the client: the store of sessions and the calls issued so far.\<close>

record world =
  sessions :: "client_session list"
  sent :: "http_request list"

text \<open>
  A URL template of \<^verbatim>\<open>clever/urls.py\<close>, kept in parsed form: literal text and replacement
  fields \<^verbatim>\<open>{name}\<close>. \<^verbatim>\<open>template.format(api_token=t)\<close> fills the fields named
  \<^verbatim>\<open>api_token\<close> with \<^verbatim>\<open>str(t)\<close> and raises \<^verbatim>\<open>KeyError\<close> at a field of another name.
\<close>

datatype piece = Lit string | Field string

fun format_template :: "piece list \<Rightarrow> string option \<Rightarrow> exn + string" where
  "format_template [] t = Inr []"
| "format_template (Lit s # ps) t =
     (case format_template ps t of Inl e \<Rightarrow> Inl e | Inr r \<Rightarrow> Inr (s @ r))"
| "format_template (Field n # ps) t =
     (if n = ''api_token''
      then (case format_template ps t of Inl e \<Rightarrow> Inl e | Inr r \<Rightarrow> Inr (py_str t @ r))
      else Inl (KeyError n))"

text \<open>
  The names the module imports from files that are not among the sources: the
  authorization header of \<^verbatim>\<open>const.py\<close>, the endpoints of \<^verbatim>\<open>clever/urls.py\<close>, and
  \<^verbatim>\<open>URL(link).query\<close> of the URL library, the query parameters of a link in their order
  (or the exception raised for a link that is no URL). Every definition below takes
  them as the parameter \<open>E\<close>.
\<close>

record env =
  AUTHORIZATION_HEADER :: string
  SEND_AUTH_EMAIL :: string
  VERIFY_LINK :: string
  OBTAIN_USER_SECRET :: string
  OBTAIN_API_TOKEN :: string
  GET_USER_INFO :: "piece list"
  GET_TRANSACTIONS :: "piece list"
  GET_EVSE_INFO :: "piece list"
  GET_ENERGITILLAEG :: "piece list"
  URL_query :: "string \<Rightarrow> exn + (string \<times> string) list"

definition METH_GET :: string where
  "METH_GET = ''GET''"

definition METH_POST :: string where
  "METH_POST = ''POST''"

text \<open>A network that gives the same answer whatever the timeout.\<close>

definition always :: "exn + json \<Rightarrow> int \<Rightarrow> exn + json" where
  "always r t = r"

section \<open>Class Clever\<close>

text \<open>
  The dataclass \<^verbatim>\<open>Clever\<close>: the timeout, the session (an address in the store, or
  \<^verbatim>\<open>None\<close>) and the flag \<^verbatim>\<open>_close_session\<close>.
\<close>

record clever =
  request_timeout :: int
  session :: "nat option"
  close_session :: bool

definition Clever :: clever where
  "Clever = \<lparr>request_timeout = 10, session = None, close_session = False\<rparr>"

text \<open>
  \<^verbatim>\<open>Clever._request\<close>. What the network does with the call is not decided by the client:
  \<open>net t\<close> is the result of the guarded block when it runs under a timeout of \<open>t\<close>
  seconds, either the exception raised in it (\<open>TimeoutError\<close> when the timeout expired
  first) or the decoded body. The first \<^verbatim>\<open>except\<close> clause takes every exception that is
  an \<^verbatim>\<open>asyncio.TimeoutError\<close>, the second re-raises the others. The calls to the logger leave no trace in the state and
  are left out.
\<close>

definition request ::
  "env \<Rightarrow> (int \<Rightarrow> exn + json) \<Rightarrow> 'a clever_scheme \<Rightarrow> world \<Rightarrow> string \<Rightarrow> string \<Rightarrow> json option
     \<Rightarrow> (exn + json) \<times> 'a clever_scheme \<times> world" where
  "request E net self w url_arg method data =
     (let hdrs = [(''authorization'', AUTHORIZATION_HEADER E)];
          (sid, self1, w1) =
            (case session self of
               None \<Rightarrow>
                 (length (sessions w),
                  self\<lparr>session := Some (length (sessions w)), close_session := True\<rparr>,
                  w\<lparr>sessions := sessions w @ [ClientSession]\<rparr>)
             | Some sid \<Rightarrow> (sid, self, w));
          w2 = w1\<lparr>sent := sent w1 @
                 [\<lparr>via = sid, meth = method, url = url_arg, body = data, headers = hdrs\<rparr>]\<rparr>
      in (case net (request_timeout self1) of
            Inl exception \<Rightarrow>
              if is_asyncio_TimeoutError exception
              then (Inl (CleverConnectionError ''Timeout while connecting to Clever backend''),
                    self1, w2)
              else (Inl exception, self1, w2)
          | Inr response_json \<Rightarrow> (Inr response_json, self1, w2)))"

text \<open>
  \<^verbatim>\<open>Clever.close\<close>: the session is closed when there is one and the flag is set. An
  address always names a session of the store; the test on the length only keeps the
  definition from reading outside of it.
\<close>

definition close :: "'a clever_scheme \<Rightarrow> world \<Rightarrow> world" where
  "close self w =
     (case session self of
        None \<Rightarrow> w
      | Some sid \<Rightarrow>
          if close_session self \<and> sid < length (sessions w)
          then w\<lparr>sessions := (sessions w)[sid := session_close (sessions w ! sid)]\<rparr>
          else w)"

text \<open>\<^verbatim>\<open>__aenter__\<close> and \<^verbatim>\<open>__aexit__\<close>; the latter ignores the exception it is told of.\<close>

definition aenter :: "'a clever_scheme \<Rightarrow> 'a clever_scheme" where
  "aenter self = self"

definition aexit :: "'a clever_scheme \<Rightarrow> exn option \<Rightarrow> world \<Rightarrow> world" where
  "aexit self exc_inf w = close self w"

text \<open>
  \<^verbatim>\<open>async with self as x: body\<close>, as Python runs it: the body gets what \<^verbatim>\<open>__aenter__\<close>
  returned, \<^verbatim>\<open>__aexit__\<close> is awaited when the body has returned and when it has raised,
  and since it returns \<^verbatim>\<open>None\<close> the exception of the body goes on to the caller.
\<close>

definition async_with ::
  "'a clever_scheme \<Rightarrow> world
     \<Rightarrow> ('a clever_scheme \<Rightarrow> world \<Rightarrow> (exn + 'r) \<times> 'a clever_scheme \<times> world)
     \<Rightarrow> (exn + 'r) \<times> 'a clever_scheme \<times> world" where
  "async_with self w body_fn =
     (let (res, self1, w1) = body_fn (aenter self) w;
          w2 = aexit self1 (case res of Inl e \<Rightarrow> Some e | Inr _ \<Rightarrow> None) w1
      in (res, self1, w2))"

section \<open>Class Auth\<close>

text \<open>
  The methods of \<^verbatim>\<open>Auth\<close> add no field to \<^verbatim>\<open>Clever\<close>. Each returns its result or the
  exception it raised, with the client and the world as the call left them.
\<close>

definition send_auth_email ::
  "env \<Rightarrow> (int \<Rightarrow> exn + json) \<Rightarrow> 'a clever_scheme \<Rightarrow> world \<Rightarrow> string
     \<Rightarrow> (exn + model) \<times> 'a clever_scheme \<times> world" where
  "send_auth_email E net self w email =
     (let url_arg = SEND_AUTH_EMAIL E @ ''?email='' @ email;
          (r, self1, w1) = request E net self w url_arg METH_GET None
      in (case r of
            Inl e \<Rightarrow> (Inl e, self1, w1)
          | Inr resp \<Rightarrow> (parse_obj SendEmail resp, self1, w1)))"

text \<open>
  What \<^verbatim>\<open>verify_link\<close> does with the decoded response: the secret code is stored in it,
  the model is built, and the model is returned only when \<^verbatim>\<open>model.data["result"]\<close> is
  the string \<^verbatim>\<open>"Verified"\<close>. The source reads \<^verbatim>\<open>model.data["result"]\<close> a second time for
  the message; it is the same value.
\<close>

definition verify_link_result :: "json \<Rightarrow> string \<Rightarrow> exn + model" where
  "verify_link_result resp secret_code =
     (case setitem resp ''secret_code'' (JStr secret_code) of
        Inl e \<Rightarrow> Inl e
      | Inr resp1 \<Rightarrow>
          (case parse_obj VerifyLink resp1 of
             Inl e \<Rightarrow> Inl e
           | Inr m \<Rightarrow>
               (case getitem (attr m ''data'') ''result'' of
                  Inl e \<Rightarrow> Inl e
                | Inr res \<Rightarrow>
                    if res \<noteq> JStr ''Verified'' then Inl (CleverError res) else Inr m)))"

definition verify_link ::
  "env \<Rightarrow> (int \<Rightarrow> exn + json) \<Rightarrow> 'a clever_scheme \<Rightarrow> world \<Rightarrow> string \<Rightarrow> string
     \<Rightarrow> (exn + model) \<times> 'a clever_scheme \<times> world" where
  "verify_link E net self w auth_link email =
     (case URL_query E auth_link of
        Inl e \<Rightarrow> (Inl e, self, w)
      | Inr query \<Rightarrow>
          (case map_of query ''secretCode'' of
             None \<Rightarrow> (Inl (KeyError ''secretCode''), self, w)
           | Some secret_code \<Rightarrow>
               (let url_arg = VERIFY_LINK E @ ''?token='' @ secret_code @ ''&email='' @ email;
                    (r, self1, w1) = request E net self w url_arg METH_GET None
                in (case r of
                      Inl e \<Rightarrow> (Inl e, self1, w1)
                    | Inr resp \<Rightarrow> (verify_link_result resp secret_code, self1, w1)))))"

text \<open>
  \<^verbatim>\<open>obtain_user_secret\<close>: the model is refused when \<^verbatim>\<open>model.data["userSecret"]\<close> is the
  string \<^verbatim>\<open>"null"\<close>, with \<^verbatim>\<open>model.data["verificationResponse"]["result"]\<close> as the message.
\<close>

definition obtain_user_secret_result :: "json \<Rightarrow> exn + model" where
  "obtain_user_secret_result resp =
     (case parse_obj ObtainUserSecret resp of
        Inl e \<Rightarrow> Inl e
      | Inr m \<Rightarrow>
          (case getitem (attr m ''data'') ''userSecret'' of
             Inl e \<Rightarrow> Inl e
           | Inr secret \<Rightarrow>
               if secret = JStr ''null''
               then (case getitem (attr m ''data'') ''verificationResponse'' of
                       Inl e \<Rightarrow> Inl e
                     | Inr vr \<Rightarrow>
                         (case getitem vr ''result'' of
                            Inl e \<Rightarrow> Inl e
                          | Inr msg \<Rightarrow> Inl (CleverError msg)))
               else Inr m))"

definition obtain_user_secret ::
  "env \<Rightarrow> (int \<Rightarrow> exn + json) \<Rightarrow> 'a clever_scheme \<Rightarrow> world
     \<Rightarrow> string \<Rightarrow> string \<Rightarrow> string \<Rightarrow> string
     \<Rightarrow> (exn + model) \<times> 'a clever_scheme \<times> world" where
  "obtain_user_secret E net self w email first_name last_name secret_code =
     (let url_arg = OBTAIN_USER_SECRET E;
          payload = JObj [(''email'', JStr email),
                          (''firstName'', JStr first_name),
                          (''lastName'', JStr last_name),
                          (''token'', JStr secret_code)];
          (r, self1, w1) = request E net self w url_arg METH_POST (Some payload)
      in (case r of
            Inl e \<Rightarrow> (Inl e, self1, w1)
          | Inr resp \<Rightarrow> (obtain_user_secret_result resp, self1, w1)))"

text \<open>
  \<^verbatim>\<open>obtain_api_token\<close>: the model is refused when \<^verbatim>\<open>model.data\<close> is \<^verbatim>\<open>None\<close>, with
  \<^verbatim>\<open>model.status_message\<close> as the message.
\<close>

definition obtain_api_token_result :: "json \<Rightarrow> exn + model" where
  "obtain_api_token_result resp =
     (case parse_obj ObtainApiToken resp of
        Inl e \<Rightarrow> Inl e
      | Inr m \<Rightarrow>
          if attr m ''data'' = JNull
          then Inl (CleverError (attr m ''status_message''))
          else Inr m)"

definition obtain_api_token ::
  "env \<Rightarrow> (int \<Rightarrow> exn + json) \<Rightarrow> 'a clever_scheme \<Rightarrow> world \<Rightarrow> string \<Rightarrow> string
     \<Rightarrow> (exn + model) \<times> 'a clever_scheme \<times> world" where
  "obtain_api_token E net self w user_secret email =
     (let url_arg = OBTAIN_API_TOKEN E @ ''?secret='' @ user_secret @ ''&email='' @ email;
          (r, self1, w1) = request E net self w url_arg METH_GET None
      in (case r of
            Inl e \<Rightarrow> (Inl e, self1, w1)
          | Inr resp \<Rightarrow> (obtain_api_token_result resp, self1, w1)))"

section \<open>Class Subscription\<close>

record subscription = clever +
  api_token :: "string option"

definition Subscription :: subscription where
  "Subscription =
     \<lparr>request_timeout = 10, session = None, close_session = False, api_token = None\<rparr>"

text \<open>
  The four queries differ in the template and in the model only: the template is
  filled with the token, the URL is requested with the default method and no body,
  and the response is given to the model.
\<close>

definition query ::
  "env \<Rightarrow> (int \<Rightarrow> exn + json) \<Rightarrow> 'a subscription_scheme \<Rightarrow> world \<Rightarrow> piece list \<Rightarrow> model_class
     \<Rightarrow> (exn + model) \<times> 'a subscription_scheme \<times> world" where
  "query E net self w template c =
     (case format_template template (api_token self) of
        Inl e \<Rightarrow> (Inl e, self, w)
      | Inr url_arg \<Rightarrow>
          (let (r, self1, w1) = request E net self w url_arg METH_GET None
           in (case r of
                 Inl e \<Rightarrow> (Inl e, self1, w1)
               | Inr resp \<Rightarrow> (parse_obj c resp, self1, w1))))"

definition get_user_info ::
  "env \<Rightarrow> (int \<Rightarrow> exn + json) \<Rightarrow> 'a subscription_scheme \<Rightarrow> world
     \<Rightarrow> (exn + model) \<times> 'a subscription_scheme \<times> world" where
  "get_user_info E net self w = query E net self w (GET_USER_INFO E) UserInfo"

definition get_transactions ::
  "env \<Rightarrow> (int \<Rightarrow> exn + json) \<Rightarrow> 'a subscription_scheme \<Rightarrow> world \<Rightarrow> 'b
     \<Rightarrow> (exn + model) \<times> 'a subscription_scheme \<times> world" where
  "get_transactions E net self w box_id = query E net self w (GET_TRANSACTIONS E) Transactions"

definition get_evse_info ::
  "env \<Rightarrow> (int \<Rightarrow> exn + json) \<Rightarrow> 'a subscription_scheme \<Rightarrow> world
     \<Rightarrow> (exn + model) \<times> 'a subscription_scheme \<times> world" where
  "get_evse_info E net self w = query E net self w (GET_EVSE_INFO E) EvseInfo"

definition get_energitillaeg ::
  "env \<Rightarrow> (int \<Rightarrow> exn + json) \<Rightarrow> 'a subscription_scheme \<Rightarrow> world
     \<Rightarrow> (exn + model) \<times> 'a subscription_scheme \<times> world" where
  "get_energitillaeg E net self w = query E net self w (GET_ENERGITILLAEG E) Energitillaeg"

section \<open>Sequences of calls\<close>

text \<open>
  A caller drives a client through a sequence of method calls and goes on after a call
  that raised. A call names the method, its arguments and, for a method that reaches
  the network, what the network answers. The client is given with the fields of
  \<^verbatim>\<open>Subscription\<close>, the largest of the three classes; the methods of \<^verbatim>\<open>Clever\<close> and
  \<^verbatim>\<open>Auth\<close> do not read the token.
\<close>

datatype call =
    Call_request "int \<Rightarrow> exn + json" string string "json option"
  | Call_close
  | Call_aenter
  | Call_aexit "exn option"
  | Call_send_auth_email "int \<Rightarrow> exn + json" string
  | Call_verify_link "int \<Rightarrow> exn + json" string string
  | Call_obtain_user_secret "int \<Rightarrow> exn + json" string string string string
  | Call_obtain_api_token "int \<Rightarrow> exn + json" string string
  | Call_get_user_info "int \<Rightarrow> exn + json"
  | Call_get_transactions "int \<Rightarrow> exn + json" json
  | Call_get_evse_info "int \<Rightarrow> exn + json"
  | Call_get_energitillaeg "int \<Rightarrow> exn + json"

fun step :: "env \<Rightarrow> call \<Rightarrow> 'a subscription_scheme \<times> world \<Rightarrow> 'a subscription_scheme \<times> world" where
  "step E (Call_request net u m d) (self, w) = snd (request E net self w u m d)"
| "step E Call_close (self, w) = (self, close self w)"
| "step E Call_aenter (self, w) = (aenter self, w)"
| "step E (Call_aexit x) (self, w) = (self, aexit self x w)"
| "step E (Call_send_auth_email net email) (self, w) = snd (send_auth_email E net self w email)"
| "step E (Call_verify_link net link email) (self, w) = snd (verify_link E net self w link email)"
| "step E (Call_obtain_user_secret net email fn ln code) (self, w) =
     snd (obtain_user_secret E net self w email fn ln code)"
| "step E (Call_obtain_api_token net secret email) (self, w) =
     snd (obtain_api_token E net self w secret email)"
| "step E (Call_get_user_info net) (self, w) = snd (get_user_info E net self w)"
| "step E (Call_get_transactions net box_id) (self, w) = snd (get_transactions E net self w box_id)"
| "step E (Call_get_evse_info net) (self, w) = snd (get_evse_info E net self w)"
| "step E (Call_get_energitillaeg net) (self, w) = snd (get_energitillaeg E net self w)"

fun run :: "env \<Rightarrow> call list \<Rightarrow> 'a subscription_scheme \<times> world \<Rightarrow> 'a subscription_scheme \<times> world" where
  "run E [] s = s"
| "run E (c # cs) s = run E cs (step E c s)"

text \<open>
  The sessions at the addresses below \<open>n0\<close> are those that existed when the client was
  constructed; a session at a later address was created afterwards. The flag agrees
  with the origin of the session when it is set exactly for a session created later.
\<close>

definition owns_created :: "nat \<Rightarrow> 'a clever_scheme \<Rightarrow> bool" where
  "owns_created n0 self =
     (case session self of
        None \<Rightarrow> \<not> close_session self
      | Some sid \<Rightarrow> close_session self = (n0 \<le> sid))"

text \<open>
  What one call can do to the client and to the store: it leaves the client as it was
  and the store at its size, or the client had no session and now holds a new one at
  the end of the store, with the flag set.
\<close>

definition stays_or_creates :: "'a clever_scheme \<times> world \<Rightarrow> 'a clever_scheme \<times> world \<Rightarrow> bool" where
  "stays_or_creates s s' =
     (case (s, s') of ((self, w), (self', w')) \<Rightarrow>
        (self' = self \<and> length (sessions w') = length (sessions w))
        \<or> (session self = None
            \<and> self' = self\<lparr>session := Some (length (sessions w)), close_session := True\<rparr>
            \<and> sessions w' = sessions w @ [ClientSession]))"

text \<open>The state kept by every call: the flag agrees with the origin of the session, and
  the address of the session lies in the store.\<close>

definition sound :: "nat \<Rightarrow> 'a clever_scheme \<times> world \<Rightarrow> bool" where
  "sound n0 s =
     (case s of (self, w) \<Rightarrow>
        n0 \<le> length (sessions w) \<and> owns_created n0 self
        \<and> (case session self of None \<Rightarrow> True | Some sid \<Rightarrow> sid < length (sessions w)))"

text \<open>A template with a field for the token and no field of another name.\<close>

fun token_fields_only :: "piece list \<Rightarrow> bool" where
  "token_fields_only [] = True"
| "token_fields_only (Lit s # ps) = token_fields_only ps"
| "token_fields_only (Field n # ps) = (n = ''api_token'' \<and> token_fields_only ps)"

definition token_template :: "piece list \<Rightarrow> bool" where
  "token_template t = (Field ''api_token'' \<in> set t \<and> token_fields_only t)"

subsection \<open>An environment for the examples\<close>

text \<open>
  A query parser that splits the text between \<^verbatim>\<open>?\<close> and \<^verbatim>\<open>#\<close> at \<^verbatim>\<open>&\<close> and each part at
  its first \<^verbatim>\<open>=\<close>, without decoding escapes, and endpoints of a made-up host.
\<close>

fun split_at :: "char \<Rightarrow> string \<Rightarrow> string list" where
  "split_at c [] = [[]]"
| "split_at c (x # xs) =
     (if x = c then [] # split_at c xs
      else (case split_at c xs of [] \<Rightarrow> [[x]] | p # ps \<Rightarrow> (x # p) # ps))"

definition plain_query :: "string \<Rightarrow> exn + (string \<times> string) list" where
  "plain_query link =
     (let q = takeWhile (\<lambda>c. c \<noteq> CHR ''#'') (drop 1 (dropWhile (\<lambda>c. c \<noteq> CHR ''?'') link))
      in Inr (map (\<lambda>p. (takeWhile (\<lambda>c. c \<noteq> CHR ''='') p, drop 1 (dropWhile (\<lambda>c. c \<noteq> CHR ''='') p)))
                  (filter (\<lambda>p. p \<noteq> []) (split_at CHR ''&'' q))))"

definition example_env :: env where
  "example_env =
     \<lparr>AUTHORIZATION_HEADER = ''Basic abc'',
      SEND_AUTH_EMAIL = ''https://api.example/email'',
      VERIFY_LINK = ''https://api.example/verify'',
      OBTAIN_USER_SECRET = ''https://api.example/secret'',
      OBTAIN_API_TOKEN = ''https://api.example/token'',
      GET_USER_INFO = [Lit ''https://api.example/'', Field ''api_token'', Lit ''/user''],
      GET_TRANSACTIONS = [Lit ''https://api.example/'', Field ''api_token'', Lit ''/transactions''],
      GET_EVSE_INFO = [Lit ''https://api.example/'', Field ''api_token'', Lit ''/evse''],
      GET_ENERGITILLAEG = [Lit ''https://api.example/'', Field ''api_token'', Lit ''/tillaeg''],
      URL_query = plain_query\<rparr>"

definition empty_world :: world where
  "empty_world = \<lparr>sessions = [], sent = []\<rparr>"

section \<open>The transport\<close>

lemma request_fst:
  "fst (request E net self w u m d) =
     (case net (request_timeout self) of
        Inl e \<Rightarrow>
          if is_asyncio_TimeoutError e
          then Inl (CleverConnectionError ''Timeout while connecting to Clever backend'')
          else Inl e
      | Inr j \<Rightarrow> Inr j)"
  by (simp add: request_def Let_def split: option.splits sum.splits)

lemma request_sent:
  "sent (snd (snd (request E net self w u m d))) = sent w @
     [\<lparr>via = (case session self of None \<Rightarrow> length (sessions w) | Some sid \<Rightarrow> sid),
       meth = m, url = u, body = d,
       headers = [(''authorization'', AUTHORIZATION_HEADER E)]\<rparr>]"
  by (simp add: request_def Let_def split: option.splits sum.splits)

lemma request_client:
  "fst (snd (request E net self w u m d)) =
     (case session self of
        None \<Rightarrow> self\<lparr>session := Some (length (sessions w)), close_session := True\<rparr>
      | Some sid \<Rightarrow> self)"
  by (simp add: request_def Let_def split: option.splits sum.splits)

lemma request_sessions:
  "sessions (snd (snd (request E net self w u m d))) =
     (case session self of
        None \<Rightarrow> sessions w @ [ClientSession]
      | Some sid \<Rightarrow> sessions w)"
  by (simp add: request_def Let_def split: option.splits sum.splits)

lemma request_stays_or_creates:
  "stays_or_creates (self, w) (snd (request E net self w u m d))"
  by (simp add: stays_or_creates_def request_def Let_def split: option.splits sum.splits)

text \<open>
  Claim C4, as the code has it. When \<^verbatim>\<open>request_timeout\<close> expires, the call raises
  \<open>CleverConnectionError\<close> with the message "Timeout while connecting to Clever backend".
  The same happens to every other exception of the guarded block that is an
  \<^verbatim>\<open>asyncio.TimeoutError\<close>, such as a timeout of the HTTP library itself: the clause
  catches by class. An exception that is not of that class leaves \<open>request\<close> as it is,
  and a decoded body is returned as it is. So a \<open>CleverConnectionError\<close> that leaves
  \<open>request\<close> comes from an exception of that class, unless the block raised that very
  exception itself. One call of \<open>request\<close> issues one call on the session, whatever the
  outcome: nothing is tried again.
\<close>

theorem request_timeout_translation:
  "(net (request_timeout self) = Inl TimeoutError \<longrightarrow>
      fst (request E net self w u m d) =
        Inl (CleverConnectionError ''Timeout while connecting to Clever backend''))
   \<and> (\<forall>e. net (request_timeout self) = Inl e \<and> is_asyncio_TimeoutError e \<longrightarrow>
          fst (request E net self w u m d) =
            Inl (CleverConnectionError ''Timeout while connecting to Clever backend''))
   \<and> (\<forall>e. net (request_timeout self) = Inl e \<and> \<not> is_asyncio_TimeoutError e \<longrightarrow>
          fst (request E net self w u m d) = Inl e)
   \<and> (\<forall>j. net (request_timeout self) = Inr j \<longrightarrow> fst (request E net self w u m d) = Inr j)
   \<and> (\<forall>msg. fst (request E net self w u m d) = Inl (CleverConnectionError msg) \<longrightarrow>
          (\<exists>e. net (request_timeout self) = Inl e \<and> is_asyncio_TimeoutError e)
          \<or> net (request_timeout self) = Inl (CleverConnectionError msg))
   \<and> length (sent (snd (snd (request E net self w u m d)))) = length (sent w) + 1"
proof (intro conjI allI impI)
  assume "net (request_timeout self) = Inl TimeoutError"
  then show "fst (request E net self w u m d) =
        Inl (CleverConnectionError ''Timeout while connecting to Clever backend'')"
    by (simp add: request_fst)
next
  fix e
  assume "net (request_timeout self) = Inl e \<and> is_asyncio_TimeoutError e"
  then show "fst (request E net self w u m d) =
        Inl (CleverConnectionError ''Timeout while connecting to Clever backend'')"
    by (simp add: request_fst)
next
  fix e
  assume "net (request_timeout self) = Inl e \<and> \<not> is_asyncio_TimeoutError e"
  then show "fst (request E net self w u m d) = Inl e"
    by (simp add: request_fst)
next
  fix j
  assume "net (request_timeout self) = Inr j"
  then show "fst (request E net self w u m d) = Inr j"
    by (simp add: request_fst)
next
  fix msg
  assume "fst (request E net self w u m d) = Inl (CleverConnectionError msg)"
  then show "(\<exists>e. net (request_timeout self) = Inl e \<and> is_asyncio_TimeoutError e)
          \<or> net (request_timeout self) = Inl (CleverConnectionError msg)"
    by (auto simp: request_fst split: sum.splits if_splits)
next
  show "length (sent (snd (snd (request E net self w u m d)))) = length (sent w) + 1"
    by (simp add: request_sent)
qed

theorem request_timeout_translation_witness:
  "fst (request example_env (always (Inl TimeoutError)) Clever empty_world ''u'' METH_GET None) =
     Inl (CleverConnectionError ''Timeout while connecting to Clever backend'')
   \<and> length (sent (snd (snd (request example_env (always (Inl TimeoutError)) Clever empty_world
        ''u'' METH_GET None)))) = 1
   \<and> fst (request example_env (always (Inl (ServerTimeoutError ''sock_read''))) Clever empty_world
        ''u'' METH_GET None) =
     Inl (CleverConnectionError ''Timeout while connecting to Clever backend'')
   \<and> fst (request example_env (always (Inl (OtherError ''500''))) Clever empty_world ''u'' METH_GET None) =
     Inl (OtherError ''500'')
   \<and> fst (request example_env (always (Inr (JObj []))) Clever empty_world ''u'' METH_GET None) =
     Inr (JObj [])"
proof -
  have t: "always (Inl TimeoutError) (request_timeout Clever) = Inl TimeoutError"
    by (simp add: always_def)
  have l: "always (Inl (ServerTimeoutError ''sock_read'')) (request_timeout Clever) =
             Inl (ServerTimeoutError ''sock_read'')
           \<and> is_asyncio_TimeoutError (ServerTimeoutError ''sock_read'')"
    by (simp add: always_def)
  have o: "always (Inl (OtherError ''500'')) (request_timeout Clever) = Inl (OtherError ''500'')
           \<and> \<not> is_asyncio_TimeoutError (OtherError ''500'')"
    by (simp add: always_def)
  have r: "always (Inr (JObj [])) (request_timeout Clever) = Inr (JObj [])"
    by (simp add: always_def)
  from t request_timeout_translation
         [of "always (Inl TimeoutError)" Clever example_env empty_world "''u''" METH_GET None]
  have 1: "fst (request example_env (always (Inl TimeoutError)) Clever empty_world ''u'' METH_GET None) =
     Inl (CleverConnectionError ''Timeout while connecting to Clever backend'')"
    and 2: "length (sent (snd (snd (request example_env (always (Inl TimeoutError)) Clever empty_world
        ''u'' METH_GET None)))) = 1"
    by (simp_all add: empty_world_def)
  from l request_timeout_translation
         [of "always (Inl (ServerTimeoutError ''sock_read''))" Clever example_env empty_world
            "''u''" METH_GET None]
  have 3: "fst (request example_env (always (Inl (ServerTimeoutError ''sock_read''))) Clever empty_world
        ''u'' METH_GET None) =
     Inl (CleverConnectionError ''Timeout while connecting to Clever backend'')"
    by blast
  from o request_timeout_translation
         [of "always (Inl (OtherError ''500''))" Clever example_env empty_world "''u''" METH_GET None]
  have 4: "fst (request example_env (always (Inl (OtherError ''500''))) Clever empty_world ''u'' METH_GET None) =
     Inl (OtherError ''500'')"
    by blast
  from r request_timeout_translation
         [of "always (Inr (JObj []))" Clever example_env empty_world "''u''" METH_GET None]
  have 5: "fst (request example_env (always (Inr (JObj []))) Clever empty_world ''u'' METH_GET None) =
     Inr (JObj [])"
    by blast
  from 1 2 3 4 5 show ?thesis by simp
qed

text \<open>
  The claim as it is written fails when the HTTP library raises a timeout of its own
  before \<^verbatim>\<open>request_timeout\<close> has expired: that exception is not the expiry of the
  configured timeout, and yet it is not re-raised unchanged but turned into
  \<open>CleverConnectionError\<close>.
\<close>

theorem request_library_timeout_counterexample:
  "fst (request example_env (always (Inl (ServerTimeoutError ''sock_read''))) Clever empty_world
          ''u'' METH_GET None) =
     Inl (CleverConnectionError ''Timeout while connecting to Clever backend'')
   \<and> fst (request example_env (always (Inl (ServerTimeoutError ''sock_read''))) Clever empty_world
          ''u'' METH_GET None) \<noteq> Inl (ServerTimeoutError ''sock_read'')
   \<and> ServerTimeoutError ''sock_read'' \<noteq> TimeoutError"
  by (simp add: request_fst always_def)

section \<open>The life of the session\<close>

lemma close_not_owner: "\<not> close_session self \<Longrightarrow> close self w = w"
  by (simp add: close_def split: option.splits)

lemma close_funpow_not_owner: "\<not> close_session self \<Longrightarrow> (close self ^^ n) w = w"
  by (induction n) (simp_all add: close_not_owner)

lemma close_owner:
  "close_session self \<Longrightarrow> session self = Some sid \<Longrightarrow> sid < length (sessions w) \<Longrightarrow>
   close self w = w\<lparr>sessions := (sessions w)[sid := session_close (sessions w ! sid)]\<rparr>"
  by (simp add: close_def)

lemma close_length: "length (sessions (close self w)) = length (sessions w)"
  by (simp add: close_def split: option.splits)

text \<open>
  Claim C5. A client whose flag is off leaves the world as it is, however often \<open>close\<close>
  is called: a session supplied by the caller is never closed. A client whose flag is
  on and whose session is open closes it at the first \<open>close\<close>, which releases the
  connector once; a second \<open>close\<close> calls the session's \<open>close()\<close> again (two calls are
  counted), and since a closed session ignores it the connector has still been
  released once.
\<close>

theorem close_releases_owned_session_once:
  "(\<not> close_session self \<longrightarrow> (close self ^^ n) w = w)
   \<and> (close_session self \<and> session self = Some sid \<and> sid < length (sessions w)
        \<and> \<not> is_closed (sessions w ! sid) \<longrightarrow>
        is_closed (sessions (close self w) ! sid)
        \<and> releases (sessions (close self w) ! sid) = releases (sessions w ! sid) + 1
        \<and> releases (sessions (close self (close self w)) ! sid) = releases (sessions w ! sid) + 1
        \<and> close_calls (sessions (close self (close self w)) ! sid) =
            close_calls (sessions w ! sid) + 2)"
proof (intro conjI impI)
  assume "\<not> close_session self"
  then show "(close self ^^ n) w = w" by (rule close_funpow_not_owner)
next
  assume a: "close_session self \<and> session self = Some sid \<and> sid < length (sessions w)
        \<and> \<not> is_closed (sessions w ! sid)"
  then have one: "close self w = w\<lparr>sessions := (sessions w)[sid := session_close (sessions w ! sid)]\<rparr>"
    by (simp add: close_owner)
  from a have len: "sid < length (sessions (close self w))" by (simp add: close_length)
  with a have two: "close self (close self w) =
      (close self w)\<lparr>sessions := (sessions (close self w))
         [sid := session_close (sessions (close self w) ! sid)]\<rparr>"
    by (simp add: close_owner)
  from a one show "is_closed (sessions (close self w) ! sid)"
    by (simp add: session_close_def)
  from a one show "releases (sessions (close self w) ! sid) = releases (sessions w ! sid) + 1"
    by (simp add: session_close_def)
  from a one len two
  show "releases (sessions (close self (close self w)) ! sid) = releases (sessions w ! sid) + 1"
    by (simp add: session_close_def)
  from a one len two
  show "close_calls (sessions (close self (close self w)) ! sid) = close_calls (sessions w ! sid) + 2"
    by (simp add: session_close_def)
qed

text \<open>
  The witness takes a client that was given the session at address 0 and closes it
  three times, and a client that made its own session at address 0 with its first
  request and is closed twice.
\<close>

theorem close_releases_owned_session_once_witness:
  "\<not> close_session (Clever\<lparr>session := Some 0\<rparr>)
   \<and> (close (Clever\<lparr>session := Some 0\<rparr>) ^^ 3) \<lparr>sessions = [ClientSession], sent = []\<rparr>
       = \<lparr>sessions = [ClientSession], sent = []\<rparr>
   \<and> fst (snd (request example_env (always (Inr (JObj []))) Clever empty_world ''u'' METH_GET None))
       = Clever\<lparr>session := Some 0, close_session := True\<rparr>
   \<and> sessions (snd (snd (request example_env (always (Inr (JObj []))) Clever empty_world
        ''u'' METH_GET None))) = [ClientSession]
   \<and> releases (sessions (close (Clever\<lparr>session := Some 0, close_session := True\<rparr>)
        (close (Clever\<lparr>session := Some 0, close_session := True\<rparr>)
           \<lparr>sessions = [ClientSession], sent = []\<rparr>)) ! 0) = 1
   \<and> close_calls (sessions (close (Clever\<lparr>session := Some 0, close_session := True\<rparr>)
        (close (Clever\<lparr>session := Some 0, close_session := True\<rparr>)
           \<lparr>sessions = [ClientSession], sent = []\<rparr>)) ! 0) = 2"
proof -
  let ?ext = "Clever\<lparr>session := Some 0\<rparr>"
  let ?own = "Clever\<lparr>session := Some 0, close_session := True\<rparr>"
  let ?w = "\<lparr>sessions = [ClientSession], sent = []\<rparr>"
  have e: "\<not> close_session ?ext" by (simp add: Clever_def)
  have o: "close_session ?own \<and> session ?own = Some 0 \<and> 0 < length (sessions ?w)
           \<and> \<not> is_closed (sessions ?w ! 0)"
    by (simp add: ClientSession_def)
  have r: "fst (snd (request example_env (always (Inr (JObj []))) Clever empty_world ''u'' METH_GET None))
             = ?own
           \<and> sessions (snd (snd (request example_env (always (Inr (JObj []))) Clever empty_world
                ''u'' METH_GET None))) = [ClientSession]"
    by (simp add: request_client request_sessions Clever_def empty_world_def)
  from e close_releases_owned_session_once [of ?ext 3 ?w 0]
  have 1: "(close ?ext ^^ 3) ?w = ?w" by blast
  from o close_releases_owned_session_once [of ?own 0 ?w 0]
  have 2: "releases (sessions (close ?own (close ?own ?w)) ! 0) = releases (sessions ?w ! 0) + 1"
    and 3: "close_calls (sessions (close ?own (close ?own ?w)) ! 0) = close_calls (sessions ?w ! 0) + 2"
    by blast+
  from e 1 r 2 3 show ?thesis by (simp add: ClientSession_def)
qed

text \<open>
  Claim C6. Entering the scope returns the client itself. Leaving it is \<open>close\<close>,
  whatever exception the exit is told of. A scope around any body ends with \<open>close\<close>
  on the state the body left, and hands on what the body returned or raised.
\<close>

theorem scope_exit_closes:
  "aenter self = self
   \<and> aexit self exc_inf w = close self w
   \<and> async_with self w body_fn =
       (case body_fn self w of (res, self1, w1) \<Rightarrow> (res, self1, close self1 w1))"
  by (simp add: aenter_def aexit_def async_with_def Let_def split: prod.splits)


section \<open>The steps of the authentication\<close>
















lemma obtain_api_token_fst_request:
  "fst (obtain_api_token E net self w secret email) =
     (case fst (request E net self w (OBTAIN_API_TOKEN E @ ''?secret='' @ secret @ ''&email='' @ email)
                  METH_GET None) of
        Inl e \<Rightarrow> Inl e
      | Inr resp \<Rightarrow> obtain_api_token_result resp)"
  by (simp add: obtain_api_token_def Let_def split: prod.splits sum.splits)

lemma obtain_api_token_fst:
  "net (request_timeout self) = Inr resp \<Longrightarrow>
   fst (obtain_api_token E net self w secret email) = obtain_api_token_result resp"
  by (simp add: obtain_api_token_fst_request request_fst)

text \<open>
  Claim C3. For a decoded response \<open>r\<close> that is a dict, \<open>obtain_api_token\<close> raises
  \<open>CleverError\<close> exactly when \<open>r\<close> has no \<open>data\<close> or its \<open>data\<close> is null, and the message
  is then the \<open>status_message\<close> of \<open>r\<close> (\<^verbatim>\<open>None\<close> when \<open>r\<close> has none); with any other
  \<open>data\<close> the model of \<open>r\<close> is returned.
\<close>

theorem obtain_api_token_missing_data:
  assumes "net (request_timeout self) = Inr (JObj r)"
  shows "((\<exists>msg. fst (obtain_api_token E net self w user_secret email) = Inl (CleverError msg)) \<longleftrightarrow>
            (map_of r ''data'' = None \<or> map_of r ''data'' = Some JNull))
         \<and> (map_of r ''data'' = None \<or> map_of r ''data'' = Some JNull \<longrightarrow>
              fst (obtain_api_token E net self w user_secret email) =
                Inl (CleverError (case map_of r ''status_message'' of None \<Rightarrow> JNull | Some v \<Rightarrow> v)))
         \<and> (\<forall>d. map_of r ''data'' = Some d \<and> d \<noteq> JNull \<longrightarrow>
              fst (obtain_api_token E net self w user_secret email) =
                Inr \<lparr>cls = ObtainApiToken, entries = r\<rparr>)"
proof -
  have f: "fst (obtain_api_token E net self w user_secret email) = obtain_api_token_result (JObj r)"
    using assms by (rule obtain_api_token_fst)
  show ?thesis unfolding f
    by (auto simp: obtain_api_token_result_def attr_def split: option.splits)
qed

theorem obtain_api_token_missing_data_witness:
  "fst (obtain_api_token example_env
          (always (Inr (JObj [(''data'', JNull), (''status_message'', JStr ''No token'')])))
          Clever empty_world ''s3cret'' ''a@b.c'') = Inl (CleverError (JStr ''No token''))
   \<and> fst (obtain_api_token example_env
          (always (Inr (JObj [(''data'', JObj [(''token'', JStr ''xyz'')])])))
          Clever empty_world ''s3cret'' ''a@b.c'')
       = Inr \<lparr>cls = ObtainApiToken, entries = [(''data'', JObj [(''token'', JStr ''xyz'')])]\<rparr>"
proof -
  let ?r1 = "[(''data'', JNull), (''status_message'', JStr ''No token'')]"
  let ?r2 = "[(''data'', JObj [(''token'', JStr ''xyz'')])]"
  have n1: "always (Inr (JObj ?r1)) (request_timeout Clever) = Inr (JObj ?r1)"
    by (simp add: always_def)
  have n2: "always (Inr (JObj ?r2)) (request_timeout Clever) = Inr (JObj ?r2)"
    by (simp add: always_def)
  have h1: "map_of ?r1 ''data'' = None \<or> map_of ?r1 ''data'' = Some JNull" by simp
  have h2: "map_of ?r2 ''data'' = Some (JObj [(''token'', JStr ''xyz'')])
            \<and> JObj [(''token'', JStr ''xyz'')] \<noteq> JNull"
    by simp
  from h1 obtain_api_token_missing_data
         [where net = "always (Inr (JObj ?r1))" and self = Clever and E = example_env
            and w = empty_world and user_secret = "''s3cret''" and email = "''a@b.c''", OF n1]
  have "fst (obtain_api_token example_env (always (Inr (JObj ?r1))) Clever empty_world
          ''s3cret'' ''a@b.c'')
        = Inl (CleverError (case map_of ?r1 ''status_message'' of None \<Rightarrow> JNull | Some v \<Rightarrow> v))"
    by blast
  then have 1: "fst (obtain_api_token example_env (always (Inr (JObj ?r1))) Clever empty_world
          ''s3cret'' ''a@b.c'') = Inl (CleverError (JStr ''No token''))"
    by simp
  from h2 obtain_api_token_missing_data
         [where net = "always (Inr (JObj ?r2))" and self = Clever and E = example_env
            and w = empty_world and user_secret = "''s3cret''" and email = "''a@b.c''", OF n2]
  have 2: "fst (obtain_api_token example_env (always (Inr (JObj ?r2))) Clever empty_world
          ''s3cret'' ''a@b.c'') = Inr \<lparr>cls = ObtainApiToken, entries = ?r2\<rparr>"
    by blast
  from 1 2 show ?thesis by simp
qed

text \<open>
  Claim C9. A link that parses to a query without a \<open>secretCode\<close> parameter makes
  \<open>verify_link\<close> raise \<open>KeyError\<close>, which is neither of the client's own exceptions, and
  the client and the world are returned untouched: no session was created and no call
  was issued.
\<close>

theorem verify_link_without_secret_code:
  "URL_query E auth_link = Inr q \<Longrightarrow> map_of q ''secretCode'' = None \<Longrightarrow>
   verify_link E net self w auth_link email = (Inl (KeyError ''secretCode''), self, w)"
  by (simp add: verify_link_def)

theorem verify_link_without_secret_code_witness:
  "URL_query example_env ''https://m.example/l?code=abc'' = Inr [(''code'', ''abc'')]
   \<and> map_of [(''code'', ''abc'')] ''secretCode'' = None
   \<and> verify_link example_env (always (Inr (JObj []))) Clever empty_world
        ''https://m.example/l?code=abc'' ''a@b.c''
       = (Inl (KeyError ''secretCode''), Clever, empty_world)"
proof -
  have q: "URL_query example_env ''https://m.example/l?code=abc'' = Inr [(''code'', ''abc'')]"
    by (simp add: example_env_def plain_query_def)
  have n: "map_of [(''code'', ''abc'')] ''secretCode'' = None" by simp
  show ?thesis using q n verify_link_without_secret_code [OF q n] by simp
qed


section \<open>The queries of a subscription\<close>

lemma query_fst_request:
  "fst (query E net self w t c) =
     (case format_template t (api_token self) of
        Inl e \<Rightarrow> Inl e
      | Inr u \<Rightarrow>
          (case fst (request E net self w u METH_GET None) of
             Inl e \<Rightarrow> Inl e
           | Inr resp \<Rightarrow> parse_obj c resp))"
  by (simp add: query_def Let_def split: prod.splits sum.splits)

lemma query_snd:
  "snd (query E net self w t c) =
     (case format_template t (api_token self) of
        Inl e \<Rightarrow> (self, w)
      | Inr u \<Rightarrow> snd (request E net self w u METH_GET None))"
  by (simp add: query_def Let_def split: prod.splits sum.splits)

text \<open>
  Claim C8. \<open>get_transactions\<close> gives the same result, the same client and the same
  world, and so the same call with the same URL in the list of calls issued, for any
  two values of \<open>box_id\<close>, of whatever type.
\<close>

theorem get_transactions_ignores_box_id:
  "get_transactions E net self w box_id = get_transactions E net self w box_id'"
  by (simp add: get_transactions_def)

lemma format_template_total:
  "token_fields_only t \<Longrightarrow> \<exists>u. format_template t tok = Inr u"
  by (induction t tok rule: format_template.induct) auto

lemma format_template_contains:
  "Field ''api_token'' \<in> set t \<Longrightarrow> format_template t tok = Inr u \<Longrightarrow> sublist (py_str tok) u"
proof (induction t tok arbitrary: u rule: format_template.induct)
  case (1 t)
  then show ?case by simp
next
  case (2 s ps t)
  then obtain r where r: "format_template ps t = Inr r" and u: "u = s @ r"
    by (auto split: sum.splits)
  from 2 r have "sublist (py_str t) r" by simp
  then obtain a b where "r = a @ py_str t @ b" by (auto simp: sublist_def)
  with u have "u = (s @ a) @ py_str t @ b" by simp
  then show ?case unfolding sublist_def by blast
next
  case (3 n ps t)
  then obtain r where "format_template ps t = Inr r" and "u = py_str t @ r"
    by (auto split: sum.splits if_splits)
  then show ?case by simp
qed

lemma query_none:
  assumes "api_token self = None" and "token_template t"
  shows "\<exists>u. format_template t None = Inr u
              \<and> sublist ''None'' u
              \<and> sent (snd (snd (query E net self w t c))) = sent w @
                   [\<lparr>via = (case session self of None \<Rightarrow> length (sessions w) | Some sid \<Rightarrow> sid),
                     meth = METH_GET, url = u, body = None,
                     headers = [(''authorization'', AUTHORIZATION_HEADER E)]\<rparr>]
              \<and> fst (query E net self w t c) =
                   (case fst (request E net self w u METH_GET None) of
                      Inl e \<Rightarrow> Inl e
                    | Inr resp \<Rightarrow> parse_obj c resp)"
proof -
  from assms obtain u where u: "format_template t None = Inr u"
    using format_template_total [of t None] by (auto simp: token_template_def)
  with assms have "sublist ''None'' u"
    using format_template_contains [of t None u] by (simp add: token_template_def)
  moreover from u assms(1)
  have "sent (snd (snd (query E net self w t c))) = sent w @
          [\<lparr>via = (case session self of None \<Rightarrow> length (sessions w) | Some sid \<Rightarrow> sid),
            meth = METH_GET, url = u, body = None,
            headers = [(''authorization'', AUTHORIZATION_HEADER E)]\<rparr>]"
    by (simp add: query_snd request_sent)
  moreover from u assms(1)
  have "fst (query E net self w t c) =
          (case fst (request E net self w u METH_GET None) of
             Inl e \<Rightarrow> Inl e
           | Inr resp \<Rightarrow> parse_obj c resp)"
    by (simp add: query_fst_request)
  ultimately show ?thesis using u by blast
qed

lemma query_none_answer:
  assumes "api_token self = None" and "token_template t"
    and "net (request_timeout self) = Inr (JObj kvs)"
  shows "fst (query E net self w t c) = Inr \<lparr>cls = c, entries = kvs\<rparr>"
proof -
  from assms obtain u where "format_template t (api_token self) = Inr u"
    using format_template_total [of t None] by (auto simp: token_template_def)
  with assms(3) show ?thesis
    by (simp add: query_fst_request request_fst)
qed

text \<open>
  Claim C10. The token of a \<open>Subscription\<close> built with the defaults is \<^verbatim>\<open>None\<close>. With such
  a token, and templates that have the token as their field, each of the four queries
  fills its own template with \<^verbatim>\<open>None\<close>, which gives a URL \<open>u\<close> in which the text "None"
  stands, issues one more call, a GET of \<open>u\<close> without a body, and gives back what that
  request gives: its exception, or the model of the decoded body, for a dict the model
  with its entries. None of them stops for want of a token.
\<close>

theorem queries_format_missing_token:
  assumes "api_token self = None"
    and "token_template (GET_USER_INFO E)" and "token_template (GET_TRANSACTIONS E)"
    and "token_template (GET_EVSE_INFO E)" and "token_template (GET_ENERGITILLAEG E)"
  shows "api_token Subscription = None
         \<and> (\<exists>u. format_template (GET_USER_INFO E) None = Inr u
              \<and> sublist ''None'' u
              \<and> sent (snd (snd (get_user_info E net self w))) = sent w @
                   [\<lparr>via = (case session self of None \<Rightarrow> length (sessions w) | Some sid \<Rightarrow> sid),
                     meth = METH_GET, url = u, body = None,
                     headers = [(''authorization'', AUTHORIZATION_HEADER E)]\<rparr>]
              \<and> fst (get_user_info E net self w) =
                   (case fst (request E net self w u METH_GET None) of
                      Inl e \<Rightarrow> Inl e
                    | Inr resp \<Rightarrow> parse_obj UserInfo resp))
         \<and> (\<exists>u. format_template (GET_TRANSACTIONS E) None = Inr u
              \<and> sublist ''None'' u
              \<and> sent (snd (snd (get_transactions E net self w box_id))) = sent w @
                   [\<lparr>via = (case session self of None \<Rightarrow> length (sessions w) | Some sid \<Rightarrow> sid),
                     meth = METH_GET, url = u, body = None,
                     headers = [(''authorization'', AUTHORIZATION_HEADER E)]\<rparr>]
              \<and> fst (get_transactions E net self w box_id) =
                   (case fst (request E net self w u METH_GET None) of
                      Inl e \<Rightarrow> Inl e
                    | Inr resp \<Rightarrow> parse_obj Transactions resp))
         \<and> (\<exists>u. format_template (GET_EVSE_INFO E) None = Inr u
              \<and> sublist ''None'' u
              \<and> sent (snd (snd (get_evse_info E net self w))) = sent w @
                   [\<lparr>via = (case session self of None \<Rightarrow> length (sessions w) | Some sid \<Rightarrow> sid),
                     meth = METH_GET, url = u, body = None,
                     headers = [(''authorization'', AUTHORIZATION_HEADER E)]\<rparr>]
              \<and> fst (get_evse_info E net self w) =
                   (case fst (request E net self w u METH_GET None) of
                      Inl e \<Rightarrow> Inl e
                    | Inr resp \<Rightarrow> parse_obj EvseInfo resp))
         \<and> (\<exists>u. format_template (GET_ENERGITILLAEG E) None = Inr u
              \<and> sublist ''None'' u
              \<and> sent (snd (snd (get_energitillaeg E net self w))) = sent w @
                   [\<lparr>via = (case session self of None \<Rightarrow> length (sessions w) | Some sid \<Rightarrow> sid),
                     meth = METH_GET, url = u, body = None,
                     headers = [(''authorization'', AUTHORIZATION_HEADER E)]\<rparr>]
              \<and> fst (get_energitillaeg E net self w) =
                   (case fst (request E net self w u METH_GET None) of
                      Inl e \<Rightarrow> Inl e
                    | Inr resp \<Rightarrow> parse_obj Energitillaeg resp))
         \<and> (\<forall>kvs. net (request_timeout self) = Inr (JObj kvs) \<longrightarrow>
                fst (get_user_info E net self w) = Inr \<lparr>cls = UserInfo, entries = kvs\<rparr>
                \<and> fst (get_transactions E net self w box_id) =
                    Inr \<lparr>cls = Transactions, entries = kvs\<rparr>
                \<and> fst (get_evse_info E net self w) = Inr \<lparr>cls = EvseInfo, entries = kvs\<rparr>
                \<and> fst (get_energitillaeg E net self w) =
                    Inr \<lparr>cls = Energitillaeg, entries = kvs\<rparr>)"
proof (intro conjI allI impI)
  show "api_token Subscription = None" by (simp add: Subscription_def)
next
  show "\<exists>u. format_template (GET_USER_INFO E) None = Inr u
              \<and> sublist ''None'' u
              \<and> sent (snd (snd (get_user_info E net self w))) = sent w @
                   [\<lparr>via = (case session self of None \<Rightarrow> length (sessions w) | Some sid \<Rightarrow> sid),
                     meth = METH_GET, url = u, body = None,
                     headers = [(''authorization'', AUTHORIZATION_HEADER E)]\<rparr>]
              \<and> fst (get_user_info E net self w) =
                   (case fst (request E net self w u METH_GET None) of
                      Inl e \<Rightarrow> Inl e
                    | Inr resp \<Rightarrow> parse_obj UserInfo resp)"
    unfolding get_user_info_def by (rule query_none [OF assms(1) assms(2)])
next
  show "\<exists>u. format_template (GET_TRANSACTIONS E) None = Inr u
              \<and> sublist ''None'' u
              \<and> sent (snd (snd (get_transactions E net self w box_id))) = sent w @
                   [\<lparr>via = (case session self of None \<Rightarrow> length (sessions w) | Some sid \<Rightarrow> sid),
                     meth = METH_GET, url = u, body = None,
                     headers = [(''authorization'', AUTHORIZATION_HEADER E)]\<rparr>]
              \<and> fst (get_transactions E net self w box_id) =
                   (case fst (request E net self w u METH_GET None) of
                      Inl e \<Rightarrow> Inl e
                    | Inr resp \<Rightarrow> parse_obj Transactions resp)"
    unfolding get_transactions_def by (rule query_none [OF assms(1) assms(3)])
next
  show "\<exists>u. format_template (GET_EVSE_INFO E) None = Inr u
              \<and> sublist ''None'' u
              \<and> sent (snd (snd (get_evse_info E net self w))) = sent w @
                   [\<lparr>via = (case session self of None \<Rightarrow> length (sessions w) | Some sid \<Rightarrow> sid),
                     meth = METH_GET, url = u, body = None,
                     headers = [(''authorization'', AUTHORIZATION_HEADER E)]\<rparr>]
              \<and> fst (get_evse_info E net self w) =
                   (case fst (request E net self w u METH_GET None) of
                      Inl e \<Rightarrow> Inl e
                    | Inr resp \<Rightarrow> parse_obj EvseInfo resp)"
    unfolding get_evse_info_def by (rule query_none [OF assms(1) assms(4)])
next
  show "\<exists>u. format_template (GET_ENERGITILLAEG E) None = Inr u
              \<and> sublist ''None'' u
              \<and> sent (snd (snd (get_energitillaeg E net self w))) = sent w @
                   [\<lparr>via = (case session self of None \<Rightarrow> length (sessions w) | Some sid \<Rightarrow> sid),
                     meth = METH_GET, url = u, body = None,
                     headers = [(''authorization'', AUTHORIZATION_HEADER E)]\<rparr>]
              \<and> fst (get_energitillaeg E net self w) =
                   (case fst (request E net self w u METH_GET None) of
                      Inl e \<Rightarrow> Inl e
                    | Inr resp \<Rightarrow> parse_obj Energitillaeg resp)"
    unfolding get_energitillaeg_def by (rule query_none [OF assms(1) assms(5)])
next
  fix kvs
  assume r: "net (request_timeout self) = Inr (JObj kvs)"
  show "fst (get_user_info E net self w) = Inr \<lparr>cls = UserInfo, entries = kvs\<rparr>"
    unfolding get_user_info_def using assms(1) assms(2) r by (rule query_none_answer)
  show "fst (get_transactions E net self w box_id) = Inr \<lparr>cls = Transactions, entries = kvs\<rparr>"
    unfolding get_transactions_def using assms(1) assms(3) r by (rule query_none_answer)
  show "fst (get_evse_info E net self w) = Inr \<lparr>cls = EvseInfo, entries = kvs\<rparr>"
    unfolding get_evse_info_def using assms(1) assms(4) r by (rule query_none_answer)
  show "fst (get_energitillaeg E net self w) = Inr \<lparr>cls = Energitillaeg, entries = kvs\<rparr>"
    unfolding get_energitillaeg_def using assms(1) assms(5) r by (rule query_none_answer)
qed

text \<open>
  The witness takes a subscription built with the defaults and the example templates:
  the four queries request the URLs of their own templates, filled with "None".
\<close>

theorem queries_format_missing_token_witness:
  "api_token Subscription = None
   \<and> token_template (GET_USER_INFO example_env)
   \<and> token_template (GET_TRANSACTIONS example_env)
   \<and> token_template (GET_EVSE_INFO example_env)
   \<and> token_template (GET_ENERGITILLAEG example_env)
   \<and> map url (sent (snd (snd (get_user_info example_env (always (Inr (JObj []))) Subscription
        empty_world)))) = [''https://api.example/None/user'']
   \<and> map url (sent (snd (snd (get_transactions example_env (always (Inr (JObj []))) Subscription
        empty_world JNull)))) = [''https://api.example/None/transactions'']
   \<and> map url (sent (snd (snd (get_evse_info example_env (always (Inr (JObj []))) Subscription
        empty_world)))) = [''https://api.example/None/evse'']
   \<and> map url (sent (snd (snd (get_energitillaeg example_env (always (Inr (JObj []))) Subscription
        empty_world)))) = [''https://api.example/None/tillaeg'']
   \<and> fst (get_user_info example_env (always (Inr (JObj []))) Subscription empty_world)
       = Inr \<lparr>cls = UserInfo, entries = []\<rparr>"
proof -
  let ?net = "always (Inr (JObj []))"
  have n: "api_token Subscription = None" by (simp add: Subscription_def)
  have t1: "token_template (GET_USER_INFO example_env)"
    and t2: "token_template (GET_TRANSACTIONS example_env)"
    and t3: "token_template (GET_EVSE_INFO example_env)"
    and t4: "token_template (GET_ENERGITILLAEG example_env)"
    by (simp_all add: token_template_def example_env_def)
  have r: "?net (request_timeout Subscription) = Inr (JObj [])"
    by (simp add: always_def)
  have f1: "format_template (GET_USER_INFO example_env) None = Inr ''https://api.example/None/user''"
    and f2: "format_template (GET_TRANSACTIONS example_env) None =
               Inr ''https://api.example/None/transactions''"
    and f3: "format_template (GET_EVSE_INFO example_env) None = Inr ''https://api.example/None/evse''"
    and f4: "format_template (GET_ENERGITILLAEG example_env) None =
               Inr ''https://api.example/None/tillaeg''"
    by (simp_all add: example_env_def)
  note th = queries_format_missing_token
    [where self = Subscription and E = example_env and net = ?net
       and w = empty_world and box_id = JNull, OF n t1 t2 t3 t4]
  from th obtain u1 where "format_template (GET_USER_INFO example_env) None = Inr u1"
    and "sent (snd (snd (get_user_info example_env ?net Subscription empty_world))) =
           sent empty_world @
           [\<lparr>via = (case session Subscription of None \<Rightarrow> length (sessions empty_world)
                    | Some sid \<Rightarrow> sid),
             meth = METH_GET, url = u1, body = None,
             headers = [(''authorization'', AUTHORIZATION_HEADER example_env)]\<rparr>]"
    by blast
  with f1 have 1: "map url (sent (snd (snd (get_user_info example_env ?net Subscription
        empty_world)))) = [''https://api.example/None/user'']"
    by (simp add: empty_world_def)
  from th obtain u2 where "format_template (GET_TRANSACTIONS example_env) None = Inr u2"
    and "sent (snd (snd (get_transactions example_env ?net Subscription empty_world JNull))) =
           sent empty_world @
           [\<lparr>via = (case session Subscription of None \<Rightarrow> length (sessions empty_world)
                    | Some sid \<Rightarrow> sid),
             meth = METH_GET, url = u2, body = None,
             headers = [(''authorization'', AUTHORIZATION_HEADER example_env)]\<rparr>]"
    by blast
  with f2 have 2: "map url (sent (snd (snd (get_transactions example_env ?net Subscription
        empty_world JNull)))) = [''https://api.example/None/transactions'']"
    by (simp add: empty_world_def)
  from th obtain u3 where "format_template (GET_EVSE_INFO example_env) None = Inr u3"
    and "sent (snd (snd (get_evse_info example_env ?net Subscription empty_world))) =
           sent empty_world @
           [\<lparr>via = (case session Subscription of None \<Rightarrow> length (sessions empty_world)
                    | Some sid \<Rightarrow> sid),
             meth = METH_GET, url = u3, body = None,
             headers = [(''authorization'', AUTHORIZATION_HEADER example_env)]\<rparr>]"
    by blast
  with f3 have 3: "map url (sent (snd (snd (get_evse_info example_env ?net Subscription
        empty_world)))) = [''https://api.example/None/evse'']"
    by (simp add: empty_world_def)
  from th obtain u4 where "format_template (GET_ENERGITILLAEG example_env) None = Inr u4"
    and "sent (snd (snd (get_energitillaeg example_env ?net Subscription empty_world))) =
           sent empty_world @
           [\<lparr>via = (case session Subscription of None \<Rightarrow> length (sessions empty_world)
                    | Some sid \<Rightarrow> sid),
             meth = METH_GET, url = u4, body = None,
             headers = [(''authorization'', AUTHORIZATION_HEADER example_env)]\<rparr>]"
    by blast
  with f4 have 4: "map url (sent (snd (snd (get_energitillaeg example_env ?net Subscription
        empty_world)))) = [''https://api.example/None/tillaeg'']"
    by (simp add: empty_world_def)
  from th r have 5: "fst (get_user_info example_env ?net Subscription empty_world)
       = Inr \<lparr>cls = UserInfo, entries = []\<rparr>"
    by blast
  from n t1 t2 t3 t4 1 2 3 4 5 show ?thesis by blast
qed

section \<open>The flag and the origin of the session\<close>

lemma send_auth_email_snd:
  "snd (send_auth_email E net self w email) =
   snd (request E net self w (SEND_AUTH_EMAIL E @ ''?email='' @ email) METH_GET None)"
  by (simp add: send_auth_email_def Let_def split: prod.splits sum.splits)

lemma verify_link_snd:
  "snd (verify_link E net self w link email) =
     (case URL_query E link of
        Inl e \<Rightarrow> (self, w)
      | Inr q \<Rightarrow>
          (case map_of q ''secretCode'' of
             None \<Rightarrow> (self, w)
           | Some sc \<Rightarrow>
               snd (request E net self w (VERIFY_LINK E @ ''?token='' @ sc @ ''&email='' @ email)
                      METH_GET None)))"
  by (simp add: verify_link_def Let_def split: prod.splits sum.splits option.splits)

lemma obtain_user_secret_snd:
  "snd (obtain_user_secret E net self w email fn ln code) =
   snd (request E net self w (OBTAIN_USER_SECRET E) METH_POST
          (Some (JObj [(''email'', JStr email), (''firstName'', JStr fn),
                       (''lastName'', JStr ln), (''token'', JStr code)])))"
  by (simp add: obtain_user_secret_def Let_def split: prod.splits sum.splits)

lemma obtain_api_token_snd:
  "snd (obtain_api_token E net self w secret email) =
   snd (request E net self w (OBTAIN_API_TOKEN E @ ''?secret='' @ secret @ ''&email='' @ email)
          METH_GET None)"
  by (simp add: obtain_api_token_def Let_def split: prod.splits sum.splits)

lemma stays_refl: "stays_or_creates (self, w) (self, w)"
  by (simp add: stays_or_creates_def)

lemma step_stays_or_creates: "stays_or_creates (self, w) (step E c (self, w))"
proof (cases c)
  case (Call_request net u m d)
  then show ?thesis by (simp add: request_stays_or_creates)
next
  case Call_close
  then show ?thesis by (simp add: stays_or_creates_def close_length)
next
  case Call_aenter
  then show ?thesis by (simp add: stays_or_creates_def aenter_def)
next
  case (Call_aexit x)
  then show ?thesis by (simp add: stays_or_creates_def aexit_def close_length)
next
  case (Call_send_auth_email net email)
  then show ?thesis by (simp add: send_auth_email_snd request_stays_or_creates)
next
  case (Call_verify_link net link email)
  then show ?thesis
    by (simp add: verify_link_snd request_stays_or_creates stays_refl
          split: sum.splits option.splits)
next
  case (Call_obtain_user_secret net email fn ln code)
  then show ?thesis by (simp add: obtain_user_secret_snd request_stays_or_creates)
next
  case (Call_obtain_api_token net secret email)
  then show ?thesis by (simp add: obtain_api_token_snd request_stays_or_creates)
next
  case (Call_get_user_info net)
  then show ?thesis
    by (simp add: get_user_info_def query_snd request_stays_or_creates stays_refl
          split: sum.splits)
next
  case (Call_get_transactions net b)
  then show ?thesis
    by (simp add: get_transactions_def query_snd request_stays_or_creates stays_refl
          split: sum.splits)
next
  case (Call_get_evse_info net)
  then show ?thesis
    by (simp add: get_evse_info_def query_snd request_stays_or_creates stays_refl
          split: sum.splits)
next
  case (Call_get_energitillaeg net)
  then show ?thesis
    by (simp add: get_energitillaeg_def query_snd request_stays_or_creates stays_refl
          split: sum.splits)
qed

lemma sound_step:
  assumes "sound n0 s"
  shows "sound n0 (step E c s)"
proof -
  obtain self w where s: "s = (self, w)" by (cases s)
  obtain self' w' where s': "step E c (self, w) = (self', w')" by (cases "step E c (self, w)")
  have "stays_or_creates (self, w) (self', w')"
    using step_stays_or_creates [of self w E c] s' by simp
  with assms s s' show ?thesis
    by (auto simp: sound_def stays_or_creates_def owns_created_def split: option.splits)
qed

lemma sound_run: "sound n0 s \<Longrightarrow> sound n0 (run E cs s)"
  by (induction cs arbitrary: s) (simp_all add: sound_step)

lemma step_keeps_session:
  "session self = Some sid \<Longrightarrow> fst (step E c (self, w)) = self"
  using step_stays_or_creates [of self w E c]
  by (cases "step E c (self, w)") (auto simp: stays_or_creates_def)

lemma run_keeps_session:
  "session (fst s) = Some sid \<Longrightarrow> fst (run E cs s) = fst s"
proof (induction cs arbitrary: s)
  case Nil
  then show ?case by simp
next
  case (Cons c cs)
  obtain self w where s: "s = (self, w)" by (cases s)
  with Cons.prems have k: "fst (step E c s) = self"
    by (simp add: step_keeps_session)
  with Cons.prems s have "session (fst (step E c s)) = Some sid" by simp
  then have "fst (run E cs (step E c s)) = fst (step E c s)" by (rule Cons.IH)
  with k s show ?case by simp
qed

text \<open>
  Claim C7, as the code has it. The flag \<^verbatim>\<open>_close_session\<close> is a field of the dataclass
  and so an argument of the constructor: the claim holds for the clients constructed
  with the flag left at its default. Take a client whose flag is off and whose
  session, if it was given one, lies in the store. If it has no session, a call of
  \<open>request\<close> creates one at the end of the store and sets the flag. If it was given a
  session, then after any sequence of calls it still holds that session and the flag
  is still off. And after any sequence of calls the flag is on exactly when the client
  holds a session that was not in the store at the start, one it has created itself.
\<close>

theorem ownership_flag_invariant:
  assumes "\<not> close_session self"
    and "case session self of None \<Rightarrow> True | Some sid \<Rightarrow> sid < length (sessions w)"
  shows "(session self = None \<longrightarrow>
            session (fst (snd (request E net self w u m d))) = Some (length (sessions w))
            \<and> close_session (fst (snd (request E net self w u m d)))
            \<and> sessions (snd (snd (request E net self w u m d))) = sessions w @ [ClientSession])
         \<and> (\<forall>sid. session self = Some sid \<longrightarrow>
               session (fst (run E cs (self, w))) = Some sid
               \<and> \<not> close_session (fst (run E cs (self, w))))
         \<and> owns_created (length (sessions w)) (fst (run E cs (self, w)))"
proof (intro conjI allI impI)
  assume n: "session self = None"
  then show "session (fst (snd (request E net self w u m d))) = Some (length (sessions w))"
    by (simp add: request_client)
  from n show "close_session (fst (snd (request E net self w u m d)))"
    by (simp add: request_client)
  from n show "sessions (snd (snd (request E net self w u m d))) = sessions w @ [ClientSession]"
    by (simp add: request_sessions)
next
  fix sid
  assume s: "session self = Some sid"
  then have "fst (run E cs (self, w)) = self"
    using run_keeps_session [of "(self, w)" sid E cs] by simp
  with s assms(1)
  show "session (fst (run E cs (self, w))) = Some sid"
    and "\<not> close_session (fst (run E cs (self, w)))"
    by simp_all
next
  from assms have "sound (length (sessions w)) (self, w)"
    by (auto simp: sound_def owns_created_def split: option.splits)
  then have "sound (length (sessions w)) (run E cs (self, w))" by (rule sound_run)
  then show "owns_created (length (sessions w)) (fst (run E cs (self, w)))"
    by (cases "run E cs (self, w)") (simp add: sound_def)
qed

text \<open>
  The witness runs a query, a close and a query that times out, on a subscription
  built with the defaults and on one that was given the session at address 0.
\<close>

theorem ownership_flag_invariant_witness:
  "\<not> close_session Subscription
   \<and> session (fst (snd (request example_env (always (Inr (JObj []))) Subscription empty_world
        ''u'' METH_GET None))) = Some 0
   \<and> close_session (fst (snd (request example_env (always (Inr (JObj []))) Subscription empty_world
        ''u'' METH_GET None)))
   \<and> owns_created 0 (fst (run example_env
        [Call_get_user_info (always (Inr (JObj []))), Call_close,
         Call_get_evse_info (always (Inl TimeoutError))]
        (Subscription, empty_world)))
   \<and> session (fst (run example_env
        [Call_get_user_info (always (Inr (JObj []))), Call_close,
         Call_get_evse_info (always (Inl TimeoutError))]
        (Subscription\<lparr>session := Some 0\<rparr>, \<lparr>sessions = [ClientSession], sent = []\<rparr>))) = Some 0
   \<and> \<not> close_session (fst (run example_env
        [Call_get_user_info (always (Inr (JObj []))), Call_close,
         Call_get_evse_info (always (Inl TimeoutError))]
        (Subscription\<lparr>session := Some 0\<rparr>, \<lparr>sessions = [ClientSession], sent = []\<rparr>)))"
proof -
  let ?cs = "[Call_get_user_info (always (Inr (JObj []))), Call_close,
              Call_get_evse_info (always (Inl TimeoutError))]"
  let ?ext = "Subscription\<lparr>session := Some 0\<rparr>"
  let ?w = "\<lparr>sessions = [ClientSession], sent = []\<rparr>"
  have f: "\<not> close_session Subscription" by (simp add: Subscription_def)
  have v: "case session Subscription of None \<Rightarrow> True | Some sid \<Rightarrow> sid < length (sessions empty_world)"
    by (simp add: Subscription_def)
  have n: "session Subscription = None" by (simp add: Subscription_def)
  have f': "\<not> close_session ?ext" by (simp add: Subscription_def)
  have v': "case session ?ext of None \<Rightarrow> True | Some sid \<Rightarrow> sid < length (sessions ?w)"
    by simp
  have s': "session ?ext = Some 0" by simp
  note own = ownership_flag_invariant
    [where self = Subscription and w = empty_world and E = example_env
       and net = "always (Inr (JObj []))" and u = "''u''" and m = METH_GET and d = None
       and cs = ?cs, OF f v]
  note ext = ownership_flag_invariant
    [where self = ?ext and w = ?w and E = example_env
       and net = "always (Inr (JObj []))" and u = "''u''" and m = METH_GET and d = None
       and cs = ?cs, OF f' v']
  from own n
  have 1: "session (fst (snd (request example_env (always (Inr (JObj []))) Subscription empty_world
        ''u'' METH_GET None))) = Some 0"
    and 2: "close_session (fst (snd (request example_env (always (Inr (JObj []))) Subscription
        empty_world ''u'' METH_GET None)))"
    by (simp_all add: empty_world_def)
  from own have 3: "owns_created 0 (fst (run example_env ?cs (Subscription, empty_world)))"
    by (simp add: empty_world_def)
  from ext s' have 4: "session (fst (run example_env ?cs (?ext, ?w))) = Some 0"
    and 5: "\<not> close_session (fst (run example_env ?cs (?ext, ?w)))"
    by blast+
  from f 1 2 3 4 5 show ?thesis by blast
qed

text \<open>
  The claim as it is written, for every client, fails for a client that is constructed
  with the flag set. Given the session at address 0 of the store and the flag, it
  keeps both through a request: the flag is on for a session it has not created. Given
  the flag and no session, it has the flag on after a \<open>close\<close> and still holds no
  session at all.
\<close>

theorem ownership_flag_preset_counterexample:
  "close_session (fst (run example_env [Call_request (always (Inr (JObj []))) ''u'' METH_GET None]
      (Subscription\<lparr>session := Some 0, close_session := True\<rparr>,
       \<lparr>sessions = [ClientSession], sent = []\<rparr>)))
   \<and> session (fst (run example_env [Call_request (always (Inr (JObj []))) ''u'' METH_GET None]
      (Subscription\<lparr>session := Some 0, close_session := True\<rparr>,
       \<lparr>sessions = [ClientSession], sent = []\<rparr>))) = Some 0
   \<and> \<not> owns_created (length (sessions \<lparr>sessions = [ClientSession], sent = []\<rparr>))
        (fst (run example_env [Call_request (always (Inr (JObj []))) ''u'' METH_GET None]
          (Subscription\<lparr>session := Some 0, close_session := True\<rparr>,
           \<lparr>sessions = [ClientSession], sent = []\<rparr>)))
   \<and> close_session (fst (run example_env [Call_close]
        (Subscription\<lparr>close_session := True\<rparr>, empty_world)))
   \<and> session (fst (run example_env [Call_close]
        (Subscription\<lparr>close_session := True\<rparr>, empty_world))) = None
   \<and> \<not> owns_created (length (sessions empty_world))
        (fst (run example_env [Call_close] (Subscription\<lparr>close_session := True\<rparr>, empty_world)))"
  by (simp add: request_client owns_created_def Subscription_def empty_world_def)

end
